theory Spec2Isabelle
  imports Main "HOL-Library.AList" "HOL-Library.Word" "HOL-Library.Numeral_Type"
begin

section \<open>Values\<close>

text \<open>
  The server (\<^verbatim>\<open>src/server.js\<close>) is an Express application with three routes over two
  MongoDB collections, \<^verbatim>\<open>rooms\<close> and \<^verbatim>\<open>reservations\<close>. A request body is a JSON object; its
  fields are modelled for the scalar JSON values (null, booleans, numbers, strings), a field
  that is absent reads as \<^verbatim>\<open>undefined\<close> (\<open>None\<close>). Numbers are JavaScript numbers with an
  integer value. A \<open>char\<close> stands for one UTF-16 code unit below 256.
\<close>

datatype jsval = JNull | JBool bool | JNum int | JStr string

type_synonym body = "string \<rightharpoonup> jsval"

text \<open>A MongoDB ObjectId is a 12-byte value; \<^verbatim>\<open>toHexString\<close> prints it as 24 hex digits.\<close>

type_synonym oid = "96 word"



text \<open>
  Values held in stored documents and in response bodies: the JSON scalars, \<^verbatim>\<open>undefined\<close>,
  \<^verbatim>\<open>Date\<close> objects (their time value in milliseconds, \<open>None\<close> for an invalid date),
  ObjectIds, and nested objects. An object is a list of properties in insertion order.
\<close>

datatype dval = Undefined | Js jsval | DateV "int option" | OidV oid
  | ObjV "(string \<times> dval) list"

type_synonym doc = "(string \<times> dval) list"

definition get_prop :: "doc \<Rightarrow> string \<Rightarrow> dval" where
  "get_prop d k = (case map_of d k of None \<Rightarrow> Undefined | Some v \<Rightarrow> v)"

text \<open>
  Object spread: \<^verbatim>\<open>{ ...base, ...src }\<close> sets the properties of \<open>src\<close> one by one, a
  property that exists keeps its place and takes the new value.
\<close>

definition spread :: "doc \<Rightarrow> doc \<Rightarrow> doc" where
  "spread base src = foldl (\<lambda>obj p. AList.update (fst p) (snd p) obj) base src"

definition body_prop :: "body \<Rightarrow> string \<Rightarrow> dval" where
  "body_prop b k = (case b k of None \<Rightarrow> Undefined | Some v \<Rightarrow> Js v)"

section \<open>JavaScript conversions\<close>

definition digit_char :: "int \<Rightarrow> char" where
  "digit_char d = ''0123456789'' ! nat (d mod 10)"

text \<open>The decimal digits of a number that is not negative.\<close>

function digits :: "int \<Rightarrow> string" where
  "digits n = (if n < 10 then [digit_char n] else digits (n div 10) @ [digit_char (n mod 10)])"
  by pat_completeness auto
termination
  by (relation "measure nat") auto

definition strip_zeros :: "string \<Rightarrow> string" where
  "strip_zeros s = rev (dropWhile (\<lambda>c. c = CHR ''0'') (rev s))"

text \<open>
  \<^verbatim>\<open>String(n)\<close> for an integer-valued number: plain decimal digits below \<open>10^21\<close>, exponent
  notation from there on (the mantissa digits are those of the exact decimal expansion).
\<close>

definition number_to_string :: "int \<Rightarrow> string" where
  "number_to_string n =
     (let ds = digits \<bar>n\<bar>;
          sign = (if n < 0 then ''-'' else '''')
      in if \<bar>n\<bar> < 10 ^ 21 then sign @ ds
         else sign @ [hd ds] @ (let f = strip_zeros (tl ds) in if f = [] then [] else CHR ''.'' # f)
              @ ''e+'' @ digits (int (length ds) - 1))"

text \<open>
  \<^verbatim>\<open>toString\<close> of express-validator, which every standard validator and sanitizer applies to
  the field value first: \<^verbatim>\<open>undefined\<close> and \<^verbatim>\<open>null\<close> become the empty string.
\<close>

fun toString :: "jsval option \<Rightarrow> string" where
  "toString None = ''''"
| "toString (Some JNull) = ''''"
| "toString (Some (JBool b)) = (if b then ''true'' else ''false'')"
| "toString (Some (JNum n)) = number_to_string n"
| "toString (Some (JStr s)) = s"

text \<open>Truthiness, for \<^verbatim>\<open>userId || 'guest'\<close>.\<close>

fun truthy :: "dval \<Rightarrow> bool" where
  "truthy Undefined = False"
| "truthy (Js JNull) = False"
| "truthy (Js (JBool b)) = b"
| "truthy (Js (JNum n)) = (n \<noteq> 0)"
| "truthy (Js (JStr s)) = (s \<noteq> [])"
| "truthy (DateV t) = True"
| "truthy (OidV i) = True"
| "truthy (ObjV ps) = True"

definition js_or :: "dval \<Rightarrow> dval \<Rightarrow> dval" where
  "js_or a b = (if truthy a then a else b)"

definition is_digit :: "char \<Rightarrow> bool" where
  "is_digit c = (c \<in> set ''0123456789'')"

text \<open>White space as the regular expression class \<^verbatim>\<open>\s\<close> has it, below code unit 256.\<close>

definition is_space :: "char \<Rightarrow> bool" where
  "is_space c = (c \<in> set [CHR 0x09, CHR 0x0A, CHR 0x0B, CHR 0x0C, CHR 0x0D, CHR 0x20, CHR 0xA0])"

definition trim :: "string \<Rightarrow> string" where
  "trim s = rev (dropWhile is_space (rev (dropWhile is_space s)))"

definition digit_val :: "char \<Rightarrow> int" where
  "digit_val c = of_char c - 48"

definition digits_val :: "string \<Rightarrow> int" where
  "digits_val s = foldl (\<lambda>a c. 10 * a + digit_val c) 0 s"

definition unsigned :: "string \<Rightarrow> string" where
  "unsigned s = (case s of [] \<Rightarrow> [] | c # r \<Rightarrow> if c = CHR ''-'' \<or> c = CHR ''+'' then r else s)"

definition signed_val :: "string \<Rightarrow> int" where
  "signed_val s = (if s \<noteq> [] \<and> hd s = CHR ''-'' then - digits_val (unsigned s)
                   else digits_val (unsigned s))"

text \<open>
  Numbers in arithmetic. A JavaScript number is a double: an integer is held exactly up to
  magnitude \<open>2^53\<close>, and a product of two such integers is exact when it stays in that range.
  \<open>None\<close> is every other outcome (\<^verbatim>\<open>NaN\<close>, a fraction, a rounded value).
\<close>

definition safe_int :: "int \<Rightarrow> int option" where
  "safe_int n = (if \<bar>n\<bar> \<le> 2 ^ 53 then Some n else None)"

fun to_number :: "dval \<Rightarrow> int option" where
  "to_number Undefined = None"
| "to_number (Js JNull) = Some 0"
| "to_number (Js (JBool b)) = Some (if b then 1 else 0)"
| "to_number (Js (JNum n)) = safe_int n"
| "to_number (Js (JStr s)) =
     (let t = trim s
      in if t = [] then Some 0
         else if unsigned t \<noteq> [] \<and> list_all is_digit (unsigned t) then safe_int (signed_val t)
         else None)"
| "to_number (DateV t) = t"
| "to_number (OidV i) = None"
| "to_number (ObjV ps) = None"

definition js_times :: "int option \<Rightarrow> int option \<Rightarrow> int option" where
  "js_times a b = (case a of None \<Rightarrow> None
                   | Some x \<Rightarrow> (case b of None \<Rightarrow> None | Some y \<Rightarrow> safe_int (x * y)))"

section \<open>Library behaviour taken as a parameter\<close>

text \<open>
  The validators \<^verbatim>\<open>isEmail\<close>, \<^verbatim>\<open>isISO8601\<close> and \<^verbatim>\<open>isMongoId\<close> of validator.js, the date
  parser behind \<^verbatim>\<open>new Date(string)\<close> and the constructor \<^verbatim>\<open>new ObjectId(value)\<close> of the
  MongoDB driver are not code of this server. They are parameters of the model: \<open>dateParse\<close>
  gives the time value in milliseconds or \<open>None\<close> for an invalid date, \<open>objectId\<close> gives the
  identifier or \<open>None\<close> when the constructor throws.
\<close>

record lib =
  isEmail :: "string \<Rightarrow> bool"
  isISO8601 :: "string \<Rightarrow> bool"
  isMongoId :: "string \<Rightarrow> bool"
  dateParse :: "string \<Rightarrow> int option"
  objectId :: "jsval option \<Rightarrow> oid option"

text \<open>\<^verbatim>\<open>new Date(value)\<close> on a body field; a time value beyond 8.64e15 ms is an invalid date.\<close>

fun new_Date :: "('a lib_scheme) \<Rightarrow> jsval option \<Rightarrow> int option" where
  "new_Date L None = None"
| "new_Date L (Some JNull) = Some 0"
| "new_Date L (Some (JBool b)) = Some (if b then 1 else 0)"
| "new_Date L (Some (JNum n)) = (if \<bar>n\<bar> \<le> 8640000000000000 then Some n else None)"
| "new_Date L (Some (JStr s)) = dateParse L s"

text \<open>\<^verbatim>\<open>a <= b\<close> on two dates compares the time values; with an invalid date it is false.\<close>

definition date_le :: "int option \<Rightarrow> int option \<Rightarrow> bool" where
  "date_le a b = (case a of None \<Rightarrow> False
                  | Some x \<Rightarrow> (case b of None \<Rightarrow> False | Some y \<Rightarrow> x \<le> y))"

section \<open>Reservation validation\<close>

text \<open>
  The messages of the validation chains are Japanese text in the source; each is named here
  by what it says.
\<close>

datatype message =
    UserIdMustBeString
  | NameMustBeString | NameLength | NameRequired
  | EmailInvalid | EmailRequired
  | PostalCodeFormat | PostalCodeRequired
  | AddressMustBeString | AddressLength | AddressRequired
  | PhoneFormat | PhoneRequired
  | RoomTypeMustBeString | RoomTypeRequired
  | CheckInInvalid | CheckInRequired
  | CheckOutInvalid | CheckOutRequired | CheckOutNotAfterCheckIn
  | NightsInvalid | NightsRequired
  | GuestsInvalid | GuestsRequired
  | RoomIdInvalid | RoomIdRequired
  | RoomDoesNotExist

text \<open>
  An entry of the \<^verbatim>\<open>errors\<close> array of a 400 response: a descriptor of express-validator
  (field path, message, offending value), or the bare \<^verbatim>\<open>{ msg }\<close> object of the room check.
\<close>

datatype errdesc = FieldError string message "jsval option" | PlainError message

text \<open>The regular expressions \<^verbatim>\<open>/^\d{3}-\d{4}$/\<close> and \<^verbatim>\<open>/^\d{10,11}$/\<close>.\<close>

definition matches_postalCode :: "string \<Rightarrow> bool" where
  "matches_postalCode s =
     (length s = 8 \<and> list_all is_digit (take 3 s) \<and> s ! 3 = CHR ''-'' \<and> list_all is_digit (drop 4 s))"

definition matches_phone :: "string \<Rightarrow> bool" where
  "matches_phone s = (10 \<le> length s \<and> length s \<le> 11 \<and> list_all is_digit s)"

text \<open>
  \<^verbatim>\<open>isInt(str, { min })\<close> of validator.js: an optional sign, then \<^verbatim>\<open>0\<close> or digits without
  a leading zero, and the number read from the string is at least \<open>min\<close>.
\<close>

definition int_literal :: "string \<Rightarrow> bool" where
  "int_literal s =
     (let t = unsigned s
      in t = ''0'' \<or> (t \<noteq> [] \<and> hd t \<noteq> CHR ''0'' \<and> list_all is_digit t))"

definition isInt_min :: "int \<Rightarrow> string \<Rightarrow> bool" where
  "isInt_min m s = (int_literal s \<and> m \<le> signed_val s)"

text \<open>\<^verbatim>\<open>isString()\<close> tests \<^verbatim>\<open>typeof value === 'string'\<close>.\<close>

definition isString :: "jsval option \<Rightarrow> bool" where
  "isString v = (case v of Some (JStr s) \<Rightarrow> True | _ \<Rightarrow> False)"

datatype validator =
    IsString
  | IsLength nat nat
  | IsEmpty
  | IsEmail
  | MatchesPostalCode
  | MatchesPhone
  | IsISO8601
  | IsInt int
  | IsMongoId
  | CheckOutAfterCheckIn

text \<open>
  One link of a validation chain. \<open>Validate v m\<close> is a validator followed by
  \<^verbatim>\<open>.withMessage(m)\<close> (for the custom validator of \<^verbatim>\<open>checkOut\<close>, the message of the error it
  throws); \<open>ValidateNot\<close> is the negated form, as \<^verbatim>\<open>notEmpty()\<close> is of \<^verbatim>\<open>isEmpty\<close>.
\<close>

datatype item = Optional | Validate validator message | ValidateNot validator message | Trim

type_synonym chain = "string \<times> item list"

text \<open>
  Whether a validator accepts a value. \<^verbatim>\<open>isString\<close> and the custom validator see the value
  itself, the validators of validator.js see its string form. The custom validator throws
  when \<^verbatim>\<open>new Date(value) <= new Date(req.body.checkIn)\<close>.
\<close>

fun accepts :: "('a lib_scheme) \<Rightarrow> body \<Rightarrow> validator \<Rightarrow> jsval option \<Rightarrow> bool" where
  "accepts L req IsString v = isString v"
| "accepts L req (IsLength lo hi) v = (lo \<le> length (toString v) \<and> length (toString v) \<le> hi)"
| "accepts L req IsEmpty v = (length (toString v) = 0)"
| "accepts L req IsEmail v = isEmail L (toString v)"
| "accepts L req MatchesPostalCode v = matches_postalCode (toString v)"
| "accepts L req MatchesPhone v = matches_phone (toString v)"
| "accepts L req IsISO8601 v = isISO8601 L (toString v)"
| "accepts L req (IsInt m) v = isInt_min m (toString v)"
| "accepts L req IsMongoId v = isMongoId L (toString v)"
| "accepts L req CheckOutAfterCheckIn v =
     (\<not> date_le (new_Date L v) (new_Date L (req ''checkIn'')))"

text \<open>
  Running the links of a chain in order over the errors so far and the current value of the
  field. No link stops the chain: every validator runs, also after a failure.
\<close>

fun run_item :: "('a lib_scheme) \<Rightarrow> body \<Rightarrow> string \<Rightarrow> item \<Rightarrow> errdesc list \<times> jsval option
    \<Rightarrow> errdesc list \<times> jsval option" where
  "run_item L req path Optional (errs, v) = (errs, v)"
| "run_item L req path (Validate c m) (errs, v) =
     (if accepts L req c v then (errs, v) else (errs @ [FieldError path m v], v))"
| "run_item L req path (ValidateNot c m) (errs, v) =
     (if accepts L req c v then (errs @ [FieldError path m v], v) else (errs, v))"
| "run_item L req path Trim (errs, v) = (errs, Some (JStr (trim (toString v))))"

fun run_items :: "('a lib_scheme) \<Rightarrow> body \<Rightarrow> string \<Rightarrow> item list \<Rightarrow> errdesc list \<times> jsval option
    \<Rightarrow> errdesc list \<times> jsval option" where
  "run_items L req path [] acc = acc"
| "run_items L req path (it # its) acc = run_items L req path its (run_item L req path it acc)"

text \<open>
  A chain does nothing on an optional field that is \<^verbatim>\<open>undefined\<close>. Otherwise it runs its
  links and writes the sanitized value back to \<^verbatim>\<open>req.body\<close> when it has changed.
\<close>

definition run_chain :: "('a lib_scheme) \<Rightarrow> body \<Rightarrow> chain \<Rightarrow> errdesc list \<times> body" where
  "run_chain L req c =
     (let path = fst c; its = snd c; v0 = req path
      in if Optional \<in> set its \<and> v0 = None then ([], req)
         else let r = run_items L req path its ([], v0)
              in (fst r, if snd r = v0 then req else req(path := snd r)))"

text \<open>The chains are middleware: they run one after the other on the same request.\<close>

fun run_chains :: "('a lib_scheme) \<Rightarrow> chain list \<Rightarrow> body \<Rightarrow> errdesc list \<times> body" where
  "run_chains L [] req = ([], req)"
| "run_chains L (c # cs) req =
     (let r1 = run_chain L req c; r2 = run_chains L cs (snd r1)
      in (fst r1 @ fst r2, snd r2))"

text \<open>The array of chains of \<^verbatim>\<open>POST /api/reservations\<close>.\<close>

definition reservation_chains :: "chain list" where
  "reservation_chains =
   [(''userId'', [Optional, Validate IsString UserIdMustBeString]),
    (''name'', [Validate IsString NameMustBeString, Trim,
                Validate (IsLength 2 50) NameLength, ValidateNot IsEmpty NameRequired]),
    (''email'', [Validate IsEmail EmailInvalid, ValidateNot IsEmpty EmailRequired]),
    (''postalCode'', [Validate MatchesPostalCode PostalCodeFormat,
                      ValidateNot IsEmpty PostalCodeRequired]),
    (''address'', [Validate IsString AddressMustBeString, Trim,
                   Validate (IsLength 5 100) AddressLength, ValidateNot IsEmpty AddressRequired]),
    (''phone'', [Validate MatchesPhone PhoneFormat, ValidateNot IsEmpty PhoneRequired]),
    (''roomType'', [Validate IsString RoomTypeMustBeString,
                    ValidateNot IsEmpty RoomTypeRequired]),
    (''checkIn'', [Validate IsISO8601 CheckInInvalid, ValidateNot IsEmpty CheckInRequired]),
    (''checkOut'', [Validate IsISO8601 CheckOutInvalid, ValidateNot IsEmpty CheckOutRequired,
                    Validate CheckOutAfterCheckIn CheckOutNotAfterCheckIn]),
    (''nights'', [Validate (IsInt 1) NightsInvalid, ValidateNot IsEmpty NightsRequired]),
    (''guests'', [Validate (IsInt 1) GuestsInvalid, ValidateNot IsEmpty GuestsRequired]),
    (''roomId'', [Validate IsMongoId RoomIdInvalid, ValidateNot IsEmpty RoomIdRequired])]"

text \<open>\<^verbatim>\<open>validationResult(req)\<close> after the chains have run, with the request they leave.\<close>

definition validationResult :: "('a lib_scheme) \<Rightarrow> body \<Rightarrow> errdesc list \<times> body" where
  "validationResult L req = run_chains L reservation_chains req"

section \<open>The store, the mail transport and the environment\<close>

text \<open>
  The two collections, each a map from \<^verbatim>\<open>_id\<close> to the stored document. The store is taken
  as reliable: a fault of the connection is outside the model. What does throw is the
  ObjectId constructor on a value it refuses, and \<^verbatim>\<open>insertOne\<close> on an \<^verbatim>\<open>_id\<close> that is
  already in the collection.
\<close>

record store =
  rooms :: "oid \<rightharpoonup> doc"
  reservations :: "oid \<rightharpoonup> doc"

datatype fault = BSONError | DuplicateKey

text \<open>\<^verbatim>\<open>findOne({ _id: v })\<close>: only an ObjectId can match a document of these collections.\<close>

definition findOne :: "(oid \<rightharpoonup> doc) \<Rightarrow> dval \<Rightarrow> doc option" where
  "findOne coll v = (case v of OidV i \<Rightarrow> coll i | _ \<Rightarrow> None)"

text \<open>What the driver writes for a value: \<^verbatim>\<open>undefined\<close> is stored as null.\<close>

primrec serialize :: "dval \<Rightarrow> dval" where
  "serialize Undefined = Js JNull"
| "serialize (Js j) = Js j"
| "serialize (DateV t) = DateV t"
| "serialize (OidV i) = OidV i"
| "serialize (ObjV ps) = ObjV (map (map_prod id serialize) ps)"

text \<open>
  The message handed to \<^verbatim>\<open>transporter.sendMail\<close>: sender, recipient, and the values the
  text of the message interpolates (the subject and the fixed wording are constants).
\<close>

record mailOptions =
  mail_from :: dval
  mail_to :: dval
  text_name :: dval
  text_email :: dval
  text_phone :: dval
  text_address :: dval
  text_postalCode :: dval
  text_roomType :: dval
  text_checkIn :: dval
  text_checkOut :: dval
  text_nights :: dval
  text_guests :: dval
  text_totalPrice :: "int option"
  text_number :: oid

text \<open>
  What a request finds around it: the library behaviour, the clock, the identifier the
  driver generates for an inserted document, \<^verbatim>\<open>process.env.EMAIL_USER\<close>, and whether the
  transport delivers a message (\<open>False\<close>: \<^verbatim>\<open>sendMail\<close> throws).
\<close>

record env = lib +
  now :: int
  newId :: oid
  emailUser :: dval
  sendMail :: "mailOptions \<Rightarrow> bool"

datatype response_body =
    Errors "errdesc list"
  | ErrorText string
  | CreateFailed fault
  | Document doc

datatype response = Response nat response_body

text \<open>
  The result of a request: the response, the store it leaves, and the message given to the
  transport, if any, with \<open>True\<close> when it was sent and \<open>False\<close> when the fault of the
  transport was caught and logged.
\<close>

record outcome =
  response :: response
  store_after :: store
  mail :: "(mailOptions \<times> bool) option"

section \<open>POST /api/reservations\<close>

text \<open>The reservation document built from the validated request and the room found.\<close>

definition reservation_doc :: "env \<Rightarrow> body \<Rightarrow> oid \<Rightarrow> doc \<Rightarrow> doc" where
  "reservation_doc E req rid room =
   [(''userId'', js_or (body_prop req ''userId'') (Js (JStr ''guest''))),
    (''name'', body_prop req ''name''),
    (''email'', body_prop req ''email''),
    (''postalCode'', body_prop req ''postalCode''),
    (''address'', body_prop req ''address''),
    (''phone'', body_prop req ''phone''),
    (''roomId'', OidV rid),
    (''roomType'', body_prop req ''roomType''),
    (''checkIn'', DateV (new_Date E (req ''checkIn''))),
    (''checkOut'', DateV (new_Date E (req ''checkOut''))),
    (''nights'', body_prop req ''nights''),
    (''guests'', body_prop req ''guests''),
    (''status'', Js (JStr ''confirmed'')),
    (''createdAt'', DateV (Some (now E))),
    (''roomDetails'', ObjV [(''price'', get_prop room ''price''),
                            (''image'', get_prop room ''image''),
                            (''name'', get_prop room ''name'')])]"

text \<open>
  \<^verbatim>\<open>insertOne\<close> gives the document the generated \<^verbatim>\<open>_id\<close> (it adds the property to the
  object it was passed) and stores it; a duplicate \<^verbatim>\<open>_id\<close> is refused.
\<close>

definition insertOne :: "env \<Rightarrow> store \<Rightarrow> doc \<Rightarrow> fault + (store \<times> doc)" where
  "insertOne E st d =
     (if newId E \<in> dom (reservations st) then Inl DuplicateKey
      else let d' = AList.update ''_id'' (OidV (newId E)) d
           in Inr (st\<lparr>reservations := (reservations st)(newId E \<mapsto> map (map_prod id serialize) d')\<rparr>, d'))"

text \<open>\<^verbatim>\<open>reservation.roomDetails.price * reservation.nights * reservation.guests\<close>\<close>

definition totalPrice :: "doc \<Rightarrow> int option" where
  "totalPrice reservation =
     js_times (js_times (to_number (case get_prop reservation ''roomDetails'' of
                                      ObjV ps \<Rightarrow> get_prop ps ''price'' | _ \<Rightarrow> Undefined))
                        (to_number (get_prop reservation ''nights'')))
              (to_number (get_prop reservation ''guests''))"

definition confirmation :: "env \<Rightarrow> doc \<Rightarrow> mailOptions" where
  "confirmation E reservation =
     \<lparr>mail_from = emailUser E,
      mail_to = get_prop reservation ''email'',
      text_name = get_prop reservation ''name'',
      text_email = get_prop reservation ''email'',
      text_phone = get_prop reservation ''phone'',
      text_address = get_prop reservation ''address'',
      text_postalCode = get_prop reservation ''postalCode'',
      text_roomType = get_prop reservation ''roomType'',
      text_checkIn = get_prop reservation ''checkIn'',
      text_checkOut = get_prop reservation ''checkOut'',
      text_nights = get_prop reservation ''nights'',
      text_guests = get_prop reservation ''guests'',
      text_totalPrice = totalPrice reservation,
      text_number = newId E\<rparr>"

text \<open>
  The handler. Validation errors end the request with 400. Inside the outer \<^verbatim>\<open>try\<close>, the
  room is looked up, the reservation is built and inserted, and the confirmation is sent in
  a \<^verbatim>\<open>try\<close> of its own, whose \<^verbatim>\<open>catch\<close> only logs; then the response is 201 with
  \<^verbatim>\<open>{ id: result.insertedId, ...reservation }\<close>. Anything thrown outside the inner
  \<^verbatim>\<open>try\<close> gives 500.
\<close>

definition createReservation :: "env \<Rightarrow> store \<Rightarrow> body \<Rightarrow> outcome" where
  "createReservation E st req0 =
     (let errors = fst (validationResult E req0); req = snd (validationResult E req0)
      in if errors \<noteq> [] then
           \<lparr>response = Response 400 (Errors errors), store_after = st, mail = None\<rparr>
         else
           (case objectId E (req ''roomId'') of
              None \<Rightarrow> \<lparr>response = Response 500 (CreateFailed BSONError), store_after = st,
                        mail = None\<rparr>
            | Some rid \<Rightarrow>
               (case findOne (rooms st) (OidV rid) of
                  None \<Rightarrow> \<lparr>response = Response 400 (Errors [PlainError RoomDoesNotExist]),
                            store_after = st, mail = None\<rparr>
                | Some room \<Rightarrow>
                   (case insertOne E st (reservation_doc E req rid room) of
                      Inl f \<Rightarrow> \<lparr>response = Response 500 (CreateFailed f), store_after = st,
                                 mail = None\<rparr>
                    | Inr (st', reservation) \<Rightarrow>
                       (let insertedReservation =
                              spread [(''id'', OidV (newId E))] reservation;
                            mailOptions = confirmation E reservation
                        in \<lparr>response = Response 201 (Document insertedReservation),
                            store_after = st',
                            mail = Some (mailOptions, sendMail E mailOptions)\<rparr>)))))"

section \<open>GET /api/reservations/:id\<close>

text \<open>
  The identifier of the path is a string. The constructor runs inside the \<^verbatim>\<open>try\<close>, so a
  string it refuses ends in the \<^verbatim>\<open>catch\<close>. The response to a reservation whose room is
  found is \<^verbatim>\<open>{ ...reservation, roomDetails: room }\<close>.
\<close>

definition getReservation :: "('a lib_scheme) \<Rightarrow> store \<Rightarrow> string \<Rightarrow> response" where
  "getReservation L st ident =
     (case objectId L (Some (JStr ident)) of
        None \<Rightarrow> Response 500 (ErrorText ''Failed to fetch reservation'')
      | Some i \<Rightarrow>
         (case findOne (reservations st) (OidV i) of
            None \<Rightarrow> Response 404 (ErrorText ''Reservation not found'')
          | Some reservation \<Rightarrow>
             (case findOne (rooms st) (get_prop reservation ''roomId'') of
                None \<Rightarrow> Response 404 (ErrorText ''Room not found'')
              | Some room \<Rightarrow>
                 Response 200
                   (Document (AList.update ''roomDetails'' (ObjV room) (spread [] reservation))))))"

text \<open>\<^verbatim>\<open>GET /api/rooms\<close> answers with every room document; \<^verbatim>\<open>GET /\<close> with a fixed greeting.\<close>

section \<open>Reading a chain and a response\<close>

text \<open>
  Two functions that describe a run of \<open>run_items\<close> by its parts: the value a chain leaves
  in the field, and whether every link accepts the value it sees.
\<close>

fun final_value :: "item list \<Rightarrow> jsval option \<Rightarrow> jsval option" where
  "final_value [] v = v"
| "final_value (Trim # its) v = final_value its (Some (JStr (trim (toString v))))"
| "final_value (it # its) v = final_value its v"

fun items_ok :: "('a lib_scheme) \<Rightarrow> body \<Rightarrow> item list \<Rightarrow> jsval option \<Rightarrow> bool" where
  "items_ok L req [] v = True"
| "items_ok L req (Optional # its) v = items_ok L req its v"
| "items_ok L req (Validate c m # its) v = (accepts L req c v \<and> items_ok L req its v)"
| "items_ok L req (ValidateNot c m # its) v = (\<not> accepts L req c v \<and> items_ok L req its v)"
| "items_ok L req (Trim # its) v = items_ok L req its (Some (JStr (trim (toString v))))"


fun document_of :: "response \<Rightarrow> doc" where
  "document_of (Response code (Document d)) = d"
| "document_of (Response code b) = []"


text \<open>The reservation object after \<^verbatim>\<open>insertOne\<close> has given it its \<^verbatim>\<open>_id\<close>.\<close>

definition created :: "env \<Rightarrow> body \<Rightarrow> oid \<Rightarrow> doc \<Rightarrow> doc" where
  "created E req rid room =
     AList.update ''_id'' (OidV (newId E))
       (reservation_doc E (snd (validationResult E req)) rid room)"

section \<open>A sample library and sample requests\<close>

text \<open>
  For running the model on concrete requests, one instance of the library parameters. Each
  function accepts the plain inputs that the library accepts too: an address
  \<^verbatim>\<open>local@domain\<close> with a dot in the domain, a calendar date \<^verbatim>\<open>YYYY-MM-DD\<close> (parsed as
  midnight UTC), an identifier of 24 hex digits.
\<close>

definition is_hex :: "char \<Rightarrow> bool" where
  "is_hex c = (c \<in> set ''0123456789abcdefABCDEF'')"

definition hex_val :: "char \<Rightarrow> int" where
  "hex_val c = (if is_digit c then of_char c - 48
                else if c \<in> set ''abcdef'' then of_char c - 87 else of_char c - 55)"

definition is_word_char :: "char \<Rightarrow> bool" where
  "is_word_char c =
     (c \<in> set ''abcdefghijklmnopqrstuvwxyzABCDEFGHIJKLMNOPQRSTUVWXYZ0123456789'')"

definition sample_isEmail :: "string \<Rightarrow> bool" where
  "sample_isEmail s =
     (let l = takeWhile (\<lambda>c. c \<noteq> CHR ''@'') s; d = drop (length l + 1) s
      in l \<noteq> [] \<and> length l < length s \<and> list_all is_word_char l
         \<and> d \<noteq> [] \<and> CHR ''.'' \<in> set d \<and> is_word_char (hd d) \<and> is_word_char (last d)
         \<and> list_all (\<lambda>c. is_word_char c \<or> c = CHR ''.'') d)"

definition leap_year :: "int \<Rightarrow> bool" where
  "leap_year y = (y mod 4 = 0 \<and> (y mod 100 \<noteq> 0 \<or> y mod 400 = 0))"

definition days_in_month :: "int \<Rightarrow> int \<Rightarrow> int" where
  "days_in_month y m =
     (if m = 2 then (if leap_year y then 29 else 28)
      else if m \<in> {4, 6, 9, 11} then 30 else 31)"

definition days_from_civil :: "int \<Rightarrow> int \<Rightarrow> int \<Rightarrow> int" where
  "days_from_civil y m d =
     (let y' = (if m \<le> 2 then y - 1 else y);
          era = y' div 400;
          yoe = y' - era * 400;
          doy = (153 * (if m > 2 then m - 3 else m + 9) + 2) div 5 + d - 1;
          doe = yoe * 365 + yoe div 4 - yoe div 100 + doy
      in era * 146097 + doe - 719468)"

definition date_shape :: "string \<Rightarrow> bool" where
  "date_shape s =
     (length s = 10 \<and> list_all is_digit (take 4 s) \<and> s ! 4 = CHR ''-''
      \<and> list_all is_digit (take 2 (drop 5 s)) \<and> s ! 7 = CHR ''-''
      \<and> list_all is_digit (drop 8 s))"

definition sample_isISO8601 :: "string \<Rightarrow> bool" where
  "sample_isISO8601 s =
     (date_shape s \<and> 1 \<le> digits_val (take 2 (drop 5 s)) \<and> digits_val (take 2 (drop 5 s)) \<le> 12
      \<and> 1 \<le> digits_val (drop 8 s) \<and> digits_val (drop 8 s) \<le> 31)"

definition sample_dateParse :: "string \<Rightarrow> int option" where
  "sample_dateParse s =
     (let y = digits_val (take 4 s); m = digits_val (take 2 (drop 5 s));
          d = digits_val (drop 8 s)
      in if date_shape s \<and> 1 \<le> m \<and> m \<le> 12 \<and> 1 \<le> d \<and> d \<le> days_in_month y m
         then Some (days_from_civil y m d * 86400000) else None)"

definition sample_isMongoId :: "string \<Rightarrow> bool" where
  "sample_isMongoId s = (length s = 24 \<and> list_all is_hex s)"

definition sample_objectId :: "jsval option \<Rightarrow> oid option" where
  "sample_objectId v =
     (case v of
        Some (JStr s) \<Rightarrow>
          if length s = 24 \<and> list_all is_hex s
          then Some (word_of_int (foldl (\<lambda>a c. 16 * a + hex_val c) 0 s)) else None
      | _ \<Rightarrow> None)"

definition sample_lib :: lib where
  "sample_lib = \<lparr>isEmail = sample_isEmail, isISO8601 = sample_isISO8601,
                  isMongoId = sample_isMongoId, dateParse = sample_dateParse,
                  objectId = sample_objectId\<rparr>"

text \<open>
  An environment over the sample library: the clock at 2025-04-20T00:00:00Z, a generated
  identifier, a sender address, and a transport that delivers or one that refuses.
\<close>

definition sample_env :: "bool \<Rightarrow> env" where
  "sample_env delivers =
     lib.extend sample_lib
       \<lparr>now = 1745107200000, newId = 0x6804000000000000000000a1,
        emailUser = Js (JStr ''inn@example.jp''), sendMail = (\<lambda>m. delivers)\<rparr>"

text \<open>The room and the request of the example of the specification (section 8).\<close>

definition sample_room_id :: oid where
  "sample_room_id = 0x507f1f77bcf86cd799439011"

definition sample_room :: doc where
  "sample_room =
     [(''_id'', OidV sample_room_id), (''name'', Js (JStr ''Standard Room'')),
      (''price'', Js (JNum 10000)), (''image'', Js (JStr ''a.jpg''))]"

definition sample_store :: store where
  "sample_store = \<lparr>rooms = [sample_room_id \<mapsto> sample_room], reservations = Map.empty\<rparr>"

definition sample_request :: body where
  "sample_request =
     [''name'' \<mapsto> JStr ''Taro Yamada'', ''email'' \<mapsto> JStr ''taro@example.jp'',
      ''postalCode'' \<mapsto> JStr ''123-4567'', ''address'' \<mapsto> JStr ''1-2-3 Aizuwakamatsu'',
      ''phone'' \<mapsto> JStr ''09012345678'', ''roomType'' \<mapsto> JStr ''standard'',
      ''checkIn'' \<mapsto> JStr ''2025-05-01'', ''checkOut'' \<mapsto> JStr ''2025-05-03'',
      ''nights'' \<mapsto> JNum 2, ''guests'' \<mapsto> JNum 2,
      ''roomId'' \<mapsto> JStr ''507f1f77bcf86cd799439011'']"




definition unknown_room_request :: body where
  "unknown_room_request = sample_request(''roomId'' \<mapsto> JStr ''507f1f77bcf86cd799439012'')"

text \<open>
  Stores for reading a reservation back: the sample store after the sample request has been
  answered, the same with the room deleted since, and the same with the room repriced since.
\<close>

definition booked_store :: store where
  "booked_store = store_after (createReservation (sample_env True) sample_store sample_request)"

definition orphan_store :: store where
  "orphan_store = booked_store\<lparr>rooms := Map.empty\<rparr>"

definition repriced_room :: doc where
  "repriced_room =
     [(''_id'', OidV sample_room_id), (''name'', Js (JStr ''Standard Room'')),
      (''price'', Js (JNum 12000)), (''image'', Js (JStr ''a.jpg''))]"

definition repriced_store :: store where
  "repriced_store = booked_store\<lparr>rooms := [sample_room_id \<mapsto> repriced_room]\<rparr>"

definition booked_id :: string where
  "booked_id = ''6804000000000000000000a1''"

text \<open>
  A request that has nothing but the two dates, both the same day, and the sample request
  with an empty \<^verbatim>\<open>userId\<close>.
\<close>

definition same_day_request :: body where
  "same_day_request = [''checkIn'' \<mapsto> JStr ''2025-05-01'', ''checkOut'' \<mapsto> JStr ''2025-05-01'']"

definition empty_userId_request :: body where
  "empty_userId_request = sample_request(''userId'' \<mapsto> JStr '''')"

section \<open>Properties of the validation chains\<close>

lemma run_items_snd: "snd (run_items L req p its acc) = final_value its (snd acc)"
proof (induction its arbitrary: acc)
  case Nil
  show ?case by simp
next
  case (Cons it its)
  obtain errs v where acc: "acc = (errs, v)" by (cases acc)
  show ?case unfolding acc by (cases it) (simp_all add: Cons.IH)
qed

lemma run_items_fst_nil:
  "fst (run_items L req p its (errs, v)) = [] \<longleftrightarrow> errs = [] \<and> items_ok L req its v"
proof (induction its arbitrary: errs v)
  case Nil
  show ?case by simp
next
  case (Cons it its)
  show ?case by (cases it) (simp_all add: Cons.IH)
qed

lemma run_chain_body:
  "snd (run_chain L req c) =
     (if Optional \<in> set (snd c) \<and> req (fst c) = None then req
      else req(fst c := final_value (snd c) (req (fst c))))"
  by (simp add: run_chain_def Let_def run_items_snd)

lemma run_chain_fst_nil:
  "fst (run_chain L req c) = [] \<longleftrightarrow>
     (Optional \<in> set (snd c) \<and> req (fst c) = None) \<or> items_ok L req (snd c) (req (fst c))"
  by (auto simp add: run_chain_def Let_def run_items_fst_nil)

lemma run_chains_fst_nil:
  "fst (run_chains L (c # cs) req) = [] \<longleftrightarrow>
     fst (run_chain L req c) = [] \<and> fst (run_chains L cs (snd (run_chain L req c))) = []"
  by (simp add: Let_def)

lemma run_chains_snd:
  "snd (run_chains L (c # cs) req) = snd (run_chains L cs (snd (run_chain L req c)))"
  by (simp add: Let_def)

lemma run_chains_set:
  "set (fst (run_chains L (c # cs) req)) =
     set (fst (run_chain L req c)) \<union> set (fst (run_chains L cs (snd (run_chain L req c))))"
  by (simp add: Let_def)

lemma sanitized_request:
  "snd (validationResult L req) =
     req(''name'' := Some (JStr (trim (toString (req ''name'')))),
         ''address'' := Some (JStr (trim (toString (req ''address'')))))"
  unfolding validationResult_def reservation_chains_def
  by (rule ext) (simp add: run_chains_snd run_chain_body del: run_chains.simps(2))

lemma valid_iff:
  "fst (validationResult L req) = [] \<longleftrightarrow>
     ((req ''userId'' = None \<or> isString (req ''userId''))
      \<and> isString (req ''name'')
      \<and> 2 \<le> length (trim (toString (req ''name'')))
      \<and> length (trim (toString (req ''name''))) \<le> 50
      \<and> isEmail L (toString (req ''email'')) \<and> toString (req ''email'') \<noteq> []
      \<and> matches_postalCode (toString (req ''postalCode''))
      \<and> toString (req ''postalCode'') \<noteq> []
      \<and> isString (req ''address'')
      \<and> 5 \<le> length (trim (toString (req ''address'')))
      \<and> length (trim (toString (req ''address''))) \<le> 100
      \<and> matches_phone (toString (req ''phone'')) \<and> toString (req ''phone'') \<noteq> []
      \<and> isString (req ''roomType'') \<and> toString (req ''roomType'') \<noteq> []
      \<and> isISO8601 L (toString (req ''checkIn'')) \<and> toString (req ''checkIn'') \<noteq> []
      \<and> isISO8601 L (toString (req ''checkOut'')) \<and> toString (req ''checkOut'') \<noteq> []
      \<and> \<not> date_le (new_Date L (req ''checkOut'')) (new_Date L (req ''checkIn''))
      \<and> isInt_min 1 (toString (req ''nights'')) \<and> toString (req ''nights'') \<noteq> []
      \<and> isInt_min 1 (toString (req ''guests'')) \<and> toString (req ''guests'') \<noteq> []
      \<and> isMongoId L (toString (req ''roomId'')) \<and> toString (req ''roomId'') \<noteq> [])"
  unfolding validationResult_def reservation_chains_def
  apply (simp add: run_chains_fst_nil run_chain_body run_chain_fst_nil del: run_chains.simps(2))
  apply (cases "req ''userId''")
   apply auto
  done

lemma run_items_field_errors:
  "e \<in> set (fst (run_items L req p its (errs, v))) \<Longrightarrow>
     e \<in> set errs \<or> (\<exists>m w. e = FieldError p m w)"
proof (induction its arbitrary: errs v)
  case Nil
  then show ?case by simp
next
  case (Cons it its)
  show ?case
  proof (cases it)
    case Optional
    with Cons show ?thesis by simp
  next
    case (Validate c m)
    with Cons.prems Cons.IH [of "if accepts L req c v then errs else errs @ [FieldError p m v]" v]
    show ?thesis by (auto split: if_splits)
  next
    case (ValidateNot c m)
    with Cons.prems Cons.IH [of "if accepts L req c v then errs @ [FieldError p m v] else errs" v]
    show ?thesis by (auto split: if_splits)
  next
    case Trim
    with Cons show ?thesis by simp
  qed
qed

lemma run_chain_field_errors:
  "e \<in> set (fst (run_chain L req c)) \<Longrightarrow> \<exists>m w. e = FieldError (fst c) m w"
  using run_items_field_errors [of e L req "fst c" "snd c" "[]" "req (fst c)"]
  by (auto simp add: run_chain_def Let_def split: if_splits)

lemma run_chains_field_errors:
  "e \<in> set (fst (run_chains L cs req)) \<Longrightarrow> \<exists>p m w. e = FieldError p m w"
proof (induction cs arbitrary: req)
  case Nil
  then show ?case by simp
next
  case (Cons c cs)
  then show ?case
    by (auto simp add: Let_def dest: run_chain_field_errors)
qed

section \<open>The branches of the creation handler\<close>

lemma roomId_untouched: "snd (validationResult L req) ''roomId'' = req ''roomId''"
  by (simp add: sanitized_request)

lemma findOne_oid: "findOne coll (OidV i) = coll i"
  by (simp add: findOne_def)

lemma createReservation_invalid:
  "fst (validationResult E req) \<noteq> [] \<Longrightarrow>
     createReservation E st req =
       \<lparr>response = Response 400 (Errors (fst (validationResult E req))),
        store_after = st, mail = None\<rparr>"
  by (simp add: createReservation_def Let_def)

lemma createReservation_no_room:
  "fst (validationResult E req) = [] \<Longrightarrow> objectId E (req ''roomId'') = Some rid \<Longrightarrow>
   rooms st rid = None \<Longrightarrow>
     createReservation E st req =
       \<lparr>response = Response 400 (Errors [PlainError RoomDoesNotExist]),
        store_after = st, mail = None\<rparr>"
  by (simp add: createReservation_def Let_def roomId_untouched findOne_oid)

lemma createReservation_created:
  "fst (validationResult E req) = [] \<Longrightarrow> objectId E (req ''roomId'') = Some rid \<Longrightarrow>
   rooms st rid = Some room \<Longrightarrow> newId E \<notin> dom (reservations st) \<Longrightarrow>
     createReservation E st req =
       \<lparr>response = Response 201 (Document (spread [(''id'', OidV (newId E))] (created E req rid room))),
        store_after = st\<lparr>reservations := (reservations st)(newId E \<mapsto> map (map_prod id serialize) (created E req rid room))\<rparr>,
        mail = Some (confirmation E (created E req rid room), sendMail E (confirmation E (created E req rid room)))\<rparr>"
  by (simp add: createReservation_def Let_def roomId_untouched findOne_oid insertOne_def created_def)

lemma createReservation_201:
  assumes "response (createReservation E st req) = Response 201 b"
  shows "fst (validationResult E req) = [] \<and>
         (\<exists>rid room. objectId E (req ''roomId'') = Some rid \<and> rooms st rid = Some room
            \<and> newId E \<notin> dom (reservations st))"
  using assms
  by (auto simp add: createReservation_def Let_def roomId_untouched findOne_oid insertOne_def
      split: if_splits option.splits sum.splits)

lemma spread_created:
  "spread [(''id'', OidV (newId E))] (created E req rid room) =
     [(''id'', OidV (newId E)),
      (''userId'', if truthy (body_prop req ''userId'') then body_prop req ''userId''
                   else Js (JStr ''guest'')),
      (''name'', Js (JStr (trim (toString (req ''name''))))),
      (''email'', body_prop req ''email''),
      (''postalCode'', body_prop req ''postalCode''),
      (''address'', Js (JStr (trim (toString (req ''address''))))),
      (''phone'', body_prop req ''phone''),
      (''roomId'', OidV rid),
      (''roomType'', body_prop req ''roomType''),
      (''checkIn'', DateV (new_Date E (req ''checkIn''))),
      (''checkOut'', DateV (new_Date E (req ''checkOut''))),
      (''nights'', body_prop req ''nights''),
      (''guests'', body_prop req ''guests''),
      (''status'', Js (JStr ''confirmed'')),
      (''createdAt'', DateV (Some (now E))),
      (''roomDetails'', ObjV [(''price'', get_prop room ''price''),
                              (''image'', get_prop room ''image''),
                              (''name'', get_prop room ''name'')]),
      (''_id'', OidV (newId E))]"
  by (simp add: created_def reservation_doc_def spread_def sanitized_request body_prop_def js_or_def)



section \<open>The sample request, evaluated\<close>

lemma sample_valid: "fst (validationResult (sample_env b) sample_request) = []"
  by code_simp


lemma sample_objectId_room:
  "sample_objectId (Some (JStr ''507f1f77bcf86cd799439011'')) = Some sample_room_id"
  by (simp add: sample_objectId_def is_hex_def hex_val_def is_digit_def sample_room_id_def)

lemma sample_env_objectId: "objectId (sample_env b) = sample_objectId"
  by (simp add: sample_env_def sample_lib_def lib.extend_def)

lemma sample_roomId: "objectId (sample_env b) (sample_request ''roomId'') = Some sample_room_id"
  by (simp add: sample_env_objectId sample_request_def sample_objectId_room)

lemma sample_rooms: "rooms sample_store sample_room_id = Some sample_room"
  by (simp add: sample_store_def)

lemma sample_fresh: "newId (sample_env b) \<notin> dom (reservations sample_store)"
  by (simp add: sample_store_def)



section \<open>Creating a reservation\<close>




section \<open>Requests that are refused\<close>


lemma unknown_room_valid: "fst (validationResult (sample_env b) unknown_room_request) = []"
  by code_simp

lemma unknown_room_objectId:
  "objectId (sample_env b) (unknown_room_request ''roomId'') = Some 0x507f1f77bcf86cd799439012"
  by (simp add: sample_env_objectId unknown_room_request_def sample_objectId_def is_hex_def
      hex_val_def is_digit_def)

lemma validation_errors_are_field_errors:
  "fst (validationResult L req) \<noteq> [PlainError m]"
proof
  assume "fst (validationResult L req) = [PlainError m]"
  then have "PlainError m \<in> set (fst (run_chains L reservation_chains req))"
    by (simp add: validationResult_def)
  from run_chains_field_errors [OF this] show False by simp
qed



text \<open>
  Claim C3. A request that passes validation and whose \<^verbatim>\<open>roomId\<close> is the identifier of no
  room in the store is answered 400 with the single error "the room does not exist"; the
  store is unchanged and no message is sent. The answer differs from every answer to a
  validation failure: the chains only produce descriptors that name a field.
\<close>

theorem unknown_room_rejected:
  assumes "fst (validationResult E req) = []"
    and "objectId E (req ''roomId'') = Some rid"
    and "rooms st rid = None"
  shows "createReservation E st req =
           \<lparr>response = Response 400 (Errors [PlainError RoomDoesNotExist]),
            store_after = st, mail = None\<rparr>
         \<and> fst (validationResult L req') \<noteq> [PlainError RoomDoesNotExist]"
  using assms by (simp add: createReservation_no_room validation_errors_are_field_errors)

theorem unknown_room_rejected_witness:
  "fst (validationResult (sample_env True) unknown_room_request) = []
   \<and> objectId (sample_env True) (unknown_room_request ''roomId'') = Some 0x507f1f77bcf86cd799439012
   \<and> rooms sample_store 0x507f1f77bcf86cd799439012 = None
   \<and> createReservation (sample_env True) sample_store unknown_room_request =
       \<lparr>response = Response 400 (Errors [PlainError RoomDoesNotExist]),
        store_after = sample_store, mail = None\<rparr>"
proof -
  have r: "rooms sample_store 0x507f1f77bcf86cd799439012 = None"
    by (simp add: sample_store_def sample_room_id_def)
  show ?thesis
    using unknown_room_rejected [OF unknown_room_valid [of True] unknown_room_objectId [of True] r,
        where L = sample_lib and req' = sample_request]
      unknown_room_valid [of True] unknown_room_objectId [of True] r
    by simp
qed

section \<open>The confirmation message and the transport\<close>

text \<open>Nothing but the outcome of the transport depends on the transport.\<close>

lemma new_Date_sendMail: "new_Date (E\<lparr>sendMail := t\<rparr>) v = new_Date E v"
  by (cases "(E, v)" rule: new_Date.cases) simp_all

lemma accepts_sendMail: "accepts (E\<lparr>sendMail := t\<rparr>) req c v = accepts E req c v"
  by (cases c) (simp_all add: new_Date_sendMail)

lemma run_item_sendMail:
  "run_item (E\<lparr>sendMail := t\<rparr>) req p it acc = run_item E req p it acc"
  by (cases acc, cases it) (simp_all add: accepts_sendMail)

lemma run_items_sendMail:
  "run_items (E\<lparr>sendMail := t\<rparr>) req p its acc = run_items E req p its acc"
  by (induction its arbitrary: acc) (simp_all add: run_item_sendMail)

lemma run_chain_sendMail:
  "run_chain (E\<lparr>sendMail := t\<rparr>) req c = run_chain E req c"
  by (simp add: run_chain_def Let_def run_items_sendMail)

lemma run_chains_sendMail:
  "run_chains (E\<lparr>sendMail := t\<rparr>) cs req = run_chains E cs req"
  by (induction cs arbitrary: req) (simp_all add: run_chain_sendMail)

lemma validationResult_sendMail:
  "validationResult (E\<lparr>sendMail := t\<rparr>) req = validationResult E req"
  by (simp add: validationResult_def run_chains_sendMail)

lemma created_sendMail: "created (E\<lparr>sendMail := t\<rparr>) req rid room = created E req rid room"
  by (simp add: created_def reservation_doc_def validationResult_sendMail new_Date_sendMail)

lemma confirmation_sendMail: "confirmation (E\<lparr>sendMail := t\<rparr>) d = confirmation E d"
  by (simp add: confirmation_def)

text \<open>
  Claim C4. When a request is answered 201, the same request against the same store with
  any other behaviour of the transport, one that throws included, is answered 201 with the
  same record and leaves the same store; the same message is handed to the transport, and
  its fault only shows in the logged outcome.
\<close>

theorem notification_fault_suppressed:
  assumes "response (createReservation E st req) = Response 201 (Document d)"
  shows "response (createReservation (E\<lparr>sendMail := t\<rparr>) st req) = Response 201 (Document d)
         \<and> store_after (createReservation (E\<lparr>sendMail := t\<rparr>) st req) =
             store_after (createReservation E st req)
         \<and> (\<exists>m. mail (createReservation E st req) = Some (m, sendMail E m)
                \<and> mail (createReservation (E\<lparr>sendMail := t\<rparr>) st req) = Some (m, t m))"
proof -
  from createReservation_201 [OF assms] obtain rid room where
    valid: "fst (validationResult E req) = []" and
    rid: "objectId E (req ''roomId'') = Some rid" and
    room: "rooms st rid = Some room" and
    fresh: "newId E \<notin> dom (reservations st)"
    by blast
  let ?E = "E\<lparr>sendMail := t\<rparr>"
  have valid': "fst (validationResult ?E req) = []"
    by (simp add: validationResult_sendMail valid)
  have rid': "objectId ?E (req ''roomId'') = Some rid"
    by (simp add: rid)
  have fresh': "newId ?E \<notin> dom (reservations st)"
    using fresh by simp
  note c = createReservation_created [OF valid rid room fresh]
  note c' = createReservation_created [OF valid' rid' room fresh']
  have "response (createReservation ?E st req) = response (createReservation E st req)"
    by (simp add: c c' created_sendMail)
  moreover have "store_after (createReservation ?E st req) =
      store_after (createReservation E st req)"
    by (simp add: c c' created_sendMail)
  moreover have "mail (createReservation E st req) =
      Some (confirmation E (created E req rid room), sendMail E (confirmation E (created E req rid room)))"
    by (simp add: c)
  moreover have "mail (createReservation ?E st req) =
      Some (confirmation E (created E req rid room), t (confirmation E (created E req rid room)))"
    by (simp add: c' created_sendMail confirmation_sendMail)
  ultimately show ?thesis using assms by simp
qed

theorem notification_fault_suppressed_witness:
  "response (createReservation (sample_env True) sample_store sample_request) =
     Response 201 (Document (document_of (response
       (createReservation (sample_env True) sample_store sample_request))))
   \<and> response (createReservation ((sample_env True)\<lparr>sendMail := \<lambda>m. False\<rparr>) sample_store
        sample_request) =
     Response 201 (Document (document_of (response
       (createReservation (sample_env True) sample_store sample_request))))
   \<and> map_option snd (mail (createReservation (sample_env True) sample_store sample_request))
       = Some True
   \<and> map_option snd (mail (createReservation ((sample_env True)\<lparr>sendMail := \<lambda>m. False\<rparr>)
        sample_store sample_request)) = Some False"
proof -
  note c = createReservation_created
    [OF sample_valid [of True] sample_roomId [of True] sample_rooms sample_fresh [of True]]
  have h: "response (createReservation (sample_env True) sample_store sample_request) =
     Response 201 (Document (document_of (response
       (createReservation (sample_env True) sample_store sample_request))))"
    by (simp add: c)
  have s: "sendMail (sample_env True) = (\<lambda>m. True)"
    by (simp add: sample_env_def lib.extend_def)
  show ?thesis
    using notification_fault_suppressed [OF h, of "\<lambda>m. False"] h
    by (auto simp add: s)
qed

section \<open>Reading a reservation\<close>

lemma getReservation_refused:
  "objectId L (Some (JStr s)) = None \<Longrightarrow>
     getReservation L st s = Response 500 (ErrorText ''Failed to fetch reservation'')"
  by (simp add: getReservation_def)

lemma getReservation_absent:
  "objectId L (Some (JStr s)) = Some i \<Longrightarrow> reservations st i = None \<Longrightarrow>
     getReservation L st s = Response 404 (ErrorText ''Reservation not found'')"
  by (simp add: getReservation_def findOne_oid)

lemma getReservation_no_room:
  "objectId L (Some (JStr s)) = Some i \<Longrightarrow> reservations st i = Some r \<Longrightarrow>
   findOne (rooms st) (get_prop r ''roomId'') = None \<Longrightarrow>
     getReservation L st s = Response 404 (ErrorText ''Room not found'')"
  by (simp add: getReservation_def findOne_oid)

lemma getReservation_found:
  "objectId L (Some (JStr s)) = Some i \<Longrightarrow> reservations st i = Some r \<Longrightarrow>
   findOne (rooms st) (get_prop r ''roomId'') = Some room \<Longrightarrow>
     getReservation L st s =
       Response 200 (Document (AList.update ''roomDetails'' (ObjV room) (spread [] r)))"
  by (simp add: getReservation_def findOne_oid)

lemma get_prop_update: "get_prop (AList.update k v d) k = v"
  by (simp add: get_prop_def update_conv')

lemma booked_objectId: "objectId sample_lib (Some (JStr booked_id)) = Some (newId (sample_env b))"
  by (simp add: sample_lib_def sample_objectId_def booked_id_def is_hex_def hex_val_def
      is_digit_def sample_env_def lib.extend_def)

lemma booked_reservation:
  "reservations booked_store (newId (sample_env True)) =
     Some (map (map_prod id serialize)
       (created (sample_env True) sample_request sample_room_id sample_room))"
  unfolding booked_store_def
  by (simp add: createReservation_created
      [OF sample_valid [of True] sample_roomId [of True] sample_rooms sample_fresh [of True]])

lemma booked_roomId:
  "get_prop (map (map_prod id serialize)
       (created (sample_env True) sample_request sample_room_id sample_room)) ''roomId''
     = OidV sample_room_id"
  by (simp add: created_def reservation_doc_def get_prop_def)

lemma booked_snapshot:
  "get_prop (map (map_prod id serialize)
       (created (sample_env True) sample_request sample_room_id sample_room)) ''roomDetails''
     = ObjV [(''price'', Js (JNum 10000)), (''image'', Js (JStr ''a.jpg'')),
             (''name'', Js (JStr ''Standard Room''))]"
  by (simp add: created_def reservation_doc_def get_prop_def sample_room_def)

text \<open>
  Claim C5 fails on this route. The string \<^verbatim>\<open>abc\<close> is no object identifier; the constructor
  throws inside the \<^verbatim>\<open>try\<close> of the handler and the answer is 500 with the message of a
  store fault, where the claim has 404 or 400.
\<close>

theorem getReservation_malformed_id:
  "getReservation sample_lib sample_store ''abc'' =
     Response 500 (ErrorText ''Failed to fetch reservation'')"
  by (simp add: getReservation_def sample_lib_def sample_objectId_def)

text \<open>
  Claim C6. For an identifier the constructor accepts: when the collection has no
  reservation under it the answer is 404 "Reservation not found"; when it has one and the
  room that reservation names is not in the rooms collection, the answer is 404
  "Room not found", the stored reservation notwithstanding.
\<close>

theorem getReservation_not_found:
  "(objectId L (Some (JStr s)) = Some i \<and> reservations st i = None \<longrightarrow>
      getReservation L st s = Response 404 (ErrorText ''Reservation not found''))
   \<and> (objectId L (Some (JStr s)) = Some i \<and> reservations st i = Some r
        \<and> get_prop r ''roomId'' = OidV rid \<and> rooms st rid = None \<longrightarrow>
      getReservation L st s = Response 404 (ErrorText ''Room not found''))"
  by (simp add: getReservation_absent getReservation_no_room findOne_oid)

theorem getReservation_not_found_witness:
  "objectId sample_lib (Some (JStr booked_id)) = Some 0x6804000000000000000000a1
   \<and> reservations sample_store 0x6804000000000000000000a1 = None
   \<and> getReservation sample_lib sample_store booked_id =
       Response 404 (ErrorText ''Reservation not found'')
   \<and> reservations orphan_store 0x6804000000000000000000a1 =
       Some (map (map_prod id serialize)
         (created (sample_env True) sample_request sample_room_id sample_room))
   \<and> get_prop (map (map_prod id serialize)
         (created (sample_env True) sample_request sample_room_id sample_room)) ''roomId''
       = OidV sample_room_id
   \<and> rooms orphan_store sample_room_id = None
   \<and> getReservation sample_lib orphan_store booked_id =
       Response 404 (ErrorText ''Room not found'')"
proof -
  have n: "newId (sample_env True) = 0x6804000000000000000000a1"
    by (simp add: sample_env_def lib.extend_def)
  have i: "objectId sample_lib (Some (JStr booked_id)) = Some 0x6804000000000000000000a1"
    using booked_objectId [of True] by (simp add: n)
  have a: "reservations sample_store 0x6804000000000000000000a1 = None"
    by (simp add: sample_store_def)
  have r: "reservations orphan_store 0x6804000000000000000000a1 =
       Some (map (map_prod id serialize)
         (created (sample_env True) sample_request sample_room_id sample_room))"
    using booked_reservation by (simp add: orphan_store_def n)
  have d: "rooms orphan_store sample_room_id = None"
    by (simp add: orphan_store_def)
  show ?thesis
    using getReservation_not_found [of sample_lib booked_id "0x6804000000000000000000a1"
        sample_store "[]" sample_room_id]
      getReservation_not_found [of sample_lib booked_id "0x6804000000000000000000a1"
        orphan_store "map (map_prod id serialize)
         (created (sample_env True) sample_request sample_room_id sample_room)" sample_room_id]
      i a r d booked_roomId
    by simp
qed

text \<open>
  Claim C7. Every 200 answer is the stored reservation with its \<^verbatim>\<open>roomDetails\<close> replaced by
  the room document that the rooms collection holds at the time of the read; the snapshot
  stored with the reservation does not appear in it.
\<close>

theorem getReservation_current_room:
  assumes "getReservation L st s = Response 200 (Document d)"
  shows "\<exists>i r room. objectId L (Some (JStr s)) = Some i \<and> reservations st i = Some r
           \<and> findOne (rooms st) (get_prop r ''roomId'') = Some room
           \<and> d = AList.update ''roomDetails'' (ObjV room) (spread [] r)
           \<and> get_prop d ''roomDetails'' = ObjV room"
  using assms
  by (auto simp add: getReservation_def findOne_oid get_prop_update split: option.splits)

theorem getReservation_current_room_witness:
  "getReservation sample_lib repriced_store booked_id =
     Response 200 (Document (document_of (getReservation sample_lib repriced_store booked_id)))
   \<and> reservations repriced_store 0x6804000000000000000000a1 =
       Some (map (map_prod id serialize)
         (created (sample_env True) sample_request sample_room_id sample_room))
   \<and> get_prop (map (map_prod id serialize)
         (created (sample_env True) sample_request sample_room_id sample_room)) ''roomDetails''
       = ObjV [(''price'', Js (JNum 10000)), (''image'', Js (JStr ''a.jpg'')),
               (''name'', Js (JStr ''Standard Room''))]
   \<and> get_prop (document_of (getReservation sample_lib repriced_store booked_id)) ''roomDetails''
       = ObjV [(''_id'', OidV sample_room_id), (''name'', Js (JStr ''Standard Room'')),
               (''price'', Js (JNum 12000)), (''image'', Js (JStr ''a.jpg''))]"
proof -
  let ?r = "map (map_prod id serialize)
         (created (sample_env True) sample_request sample_room_id sample_room)"
  have n: "newId (sample_env True) = 0x6804000000000000000000a1"
    by (simp add: sample_env_def lib.extend_def)
  have i: "objectId sample_lib (Some (JStr booked_id)) = Some 0x6804000000000000000000a1"
    using booked_objectId [of True] by (simp add: n)
  have r: "reservations repriced_store 0x6804000000000000000000a1 = Some ?r"
    using booked_reservation by (simp add: repriced_store_def n)
  have room: "findOne (rooms repriced_store) (get_prop ?r ''roomId'') = Some repriced_room"
    by (simp add: booked_roomId findOne_oid repriced_store_def)
  note g = getReservation_found [OF i r room]
  have h: "getReservation sample_lib repriced_store booked_id =
     Response 200 (Document (document_of (getReservation sample_lib repriced_store booked_id)))"
    by (simp add: g)
  show ?thesis
    using getReservation_current_room [OF h] h r room booked_snapshot
    by (auto simp add: i repriced_room_def)
qed

section \<open>Single rules of the validation\<close>


lemma roomId_chain_error:
  assumes "req ''roomId'' = v" and "\<not> isMongoId L (toString v)"
  shows "FieldError ''roomId'' RoomIdInvalid v \<in>
    set (fst (run_chain L req
      (''roomId'', [Validate IsMongoId RoomIdInvalid, ValidateNot IsEmpty RoomIdRequired])))"
  using assms by (simp add: run_chain_def Let_def)


lemma roomId_error:
  assumes "\<not> isMongoId L (toString (req ''roomId''))"
  shows "FieldError ''roomId'' RoomIdInvalid (req ''roomId'') \<in> set (fst (validationResult L req))"
  unfolding validationResult_def reservation_chains_def
  using assms
  by (simp add: run_chains_set run_chain_body roomId_chain_error del: run_chains.simps(2))

text \<open>
  The \<^verbatim>\<open>roomId\<close> of a creation request is checked by the chain: an identifier that
  \<^verbatim>\<open>isMongoId\<close> refuses is answered 400 with a descriptor for the field, before the handler
  reaches the constructor or the store.
\<close>

lemma malformed_roomId_refused:
  assumes "\<not> isMongoId E (toString (req ''roomId''))"
  shows "createReservation E st req =
           \<lparr>response = Response 400 (Errors (fst (validationResult E req))),
            store_after = st, mail = None\<rparr>
         \<and> FieldError ''roomId'' RoomIdInvalid (req ''roomId'') \<in> set (fst (validationResult E req))"
proof -
  from roomId_error [of E req] assms
  have m: "FieldError ''roomId'' RoomIdInvalid (req ''roomId'') \<in> set (fst (validationResult E req))"
    by simp
  then have "fst (validationResult E req) \<noteq> []" by auto
  from createReservation_invalid [OF this] m show ?thesis by simp
qed


lemma same_day_errors:
  "fst (validationResult (sample_env b) same_day_request) =
     [FieldError ''name'' NameMustBeString None,
      FieldError ''name'' NameLength (Some (JStr '''')),
      FieldError ''name'' NameRequired (Some (JStr '''')),
      FieldError ''email'' EmailInvalid None,
      FieldError ''email'' EmailRequired None,
      FieldError ''postalCode'' PostalCodeFormat None,
      FieldError ''postalCode'' PostalCodeRequired None,
      FieldError ''address'' AddressMustBeString None,
      FieldError ''address'' AddressLength (Some (JStr '''')),
      FieldError ''address'' AddressRequired (Some (JStr '''')),
      FieldError ''phone'' PhoneFormat None,
      FieldError ''phone'' PhoneRequired None,
      FieldError ''roomType'' RoomTypeMustBeString None,
      FieldError ''roomType'' RoomTypeRequired None,
      FieldError ''checkOut'' CheckOutNotAfterCheckIn (Some (JStr ''2025-05-01'')),
      FieldError ''nights'' NightsInvalid None,
      FieldError ''nights'' NightsRequired None,
      FieldError ''guests'' GuestsInvalid None,
      FieldError ''guests'' GuestsRequired None,
      FieldError ''roomId'' RoomIdInvalid None,
      FieldError ''roomId'' RoomIdRequired None]"
  by code_simp


section \<open>The total of the confirmation and the default user\<close>








lemma falsy_userId:
  assumes "fst (validationResult L req) = []" and "\<not> truthy (body_prop req ''userId'')"
  shows "req ''userId'' = None \<or> req ''userId'' = Some (JStr '''')"
proof (cases "req ''userId''")
  case None
  then show ?thesis by simp
next
  case (Some v)
  with assms(1) have "isString (Some v)" by (simp add: valid_iff)
  then obtain s where "v = JStr s" by (cases v) (simp_all add: isString_def)
  with Some assms(2) show ?thesis by (simp add: body_prop_def)
qed

text \<open>
  Claim C10. An empty string is accepted by the chain of \<^verbatim>\<open>userId\<close>, and for every request
  answered 201 whose \<^verbatim>\<open>userId\<close> is falsy (which validation leaves to be the empty string or
  an absent field) the \<^verbatim>\<open>userId\<close> of the created reservation is \<^verbatim>\<open>"guest"\<close>.
\<close>

theorem falsy_userId_is_guest:
  assumes "response (createReservation E st req) = Response 201 (Document d)"
    and "\<not> truthy (body_prop req ''userId'')"
  shows "get_prop d ''userId'' = Js (JStr ''guest'')
         \<and> (req ''userId'' = None \<or> req ''userId'' = Some (JStr ''''))
         \<and> fst (run_chain E (req(''userId'' \<mapsto> JStr ''''))
                  (''userId'', [Optional, Validate IsString UserIdMustBeString])) = []"
proof -
  from createReservation_201 [OF assms(1)] obtain rid room where
    valid: "fst (validationResult E req) = []" and
    rid: "objectId E (req ''roomId'') = Some rid" and
    room: "rooms st rid = Some room" and
    fresh: "newId E \<notin> dom (reservations st)"
    by blast
  note c = createReservation_created [OF valid rid room fresh]
  have d: "d = spread [(''id'', OidV (newId E))] (created E req rid room)"
    using assms(1) by (simp add: c)
  have u: "get_prop d ''userId'' = Js (JStr ''guest'')"
    using assms(2) by (simp add: d spread_created get_prop_def)
  have e: "fst (run_chain E (req(''userId'' \<mapsto> JStr ''''))
                  (''userId'', [Optional, Validate IsString UserIdMustBeString])) = []"
    by (simp add: run_chain_fst_nil isString_def)
  show ?thesis
    using u e falsy_userId [OF valid assms(2)] by simp
qed

lemma empty_userId_valid: "fst (validationResult (sample_env b) empty_userId_request) = []"
  by code_simp

theorem falsy_userId_is_guest_witness:
  "empty_userId_request ''userId'' = Some (JStr '''')
   \<and> response (createReservation (sample_env True) sample_store empty_userId_request) =
       Response 201 (Document (document_of (response
         (createReservation (sample_env True) sample_store empty_userId_request))))
   \<and> \<not> truthy (body_prop empty_userId_request ''userId'')
   \<and> get_prop (document_of (response
         (createReservation (sample_env True) sample_store empty_userId_request))) ''userId''
       = Js (JStr ''guest'')"
proof -
  have u: "empty_userId_request ''userId'' = Some (JStr '''')"
    by (simp add: empty_userId_request_def)
  have r: "objectId (sample_env True) (empty_userId_request ''roomId'') = Some sample_room_id"
    using sample_roomId [of True] by (simp add: empty_userId_request_def)
  note c = createReservation_created [OF empty_userId_valid r sample_rooms sample_fresh]
  have h: "response (createReservation (sample_env True) sample_store empty_userId_request) =
       Response 201 (Document (document_of (response
         (createReservation (sample_env True) sample_store empty_userId_request))))"
    by (simp add: c)
  have f: "\<not> truthy (body_prop empty_userId_request ''userId'')"
    by (simp add: body_prop_def u)
  show ?thesis
    using falsy_userId_is_guest [OF h f] u h f by simp
qed

end
